theory Spec2Isabelle
  imports Main "HOL-Library.Multiset"
begin

section \<open>Data model of \<open>server.js\<close>\<close>

text \<open>
  A date field of a Firestore document as the handlers see it: the sentinel
  \<open>admin.firestore.FieldValue.serverTimestamp()\<close> in data that is being written, a
  Firestore \<open>Timestamp\<close> (the only one of the three that has a \<open>toDate\<close> method) in
  data that is read back, and the string produced by \<open>toDate().toISOString()\<close> in a
  response.
\<close>

datatype date_value = ServerTimestamp | Timestamp nat | DateString string

text \<open>
  What \<open>doc.data()\<close> yields for a crew field: \<open>Missing\<close> is the JavaScript \<open>undefined\<close>
  of a field the document does not have, \<open>NullValue\<close> a stored \<open>null\<close>, and
  \<open>IntegerValue n\<close> a stored (64-bit) integer \<open>n\<close>. The other kinds of Firestore values
  are not modelled.
\<close>

datatype field_value = Missing | NullValue | IntegerValue int

text \<open>The object stored under \<open>activeMission\<close> of a user document (lines 206-211).\<close>

record active_mission =
  missionId :: string
  missionName :: string
  startDate :: date_value
  durationSeconds :: int

text \<open>
  A document of the sub-collection \<open>users/{uid}/journeyEvents\<close> (lines 228-233). Its
  fields \<open>missionId\<close> and \<open>missionName\<close> are \<open>eventMissionId\<close> and \<open>eventMissionName\<close>
  here, since a field name belongs to one record type.
\<close>

record journey_event =
  eventMissionId :: string
  eventMissionName :: string
  status :: string
  eventDate :: date_value

text \<open>\<open>userData.shipStatus\<close>.\<close>

record ship_status =
  crewCurrent :: field_value

record user_doc =
  activeMission :: "active_mission option"
  shipStatus :: "ship_status option"

text \<open>
  A document of the collection \<open>missions\<close>. \<open>name = None\<close> and \<open>missionDuration = None\<close>
  are missing fields; \<open>missionDuration\<close> is the document's \<open>durationSeconds\<close>.
\<close>

record mission_doc =
  name :: "string option"
  crew :: field_value
  missionDuration :: "int option"

text \<open>
  \<open>db = admin.firestore()\<close>: the stored documents and what the SDK and the server do
  with a call.

  \<^item> \<open>users\<close> and \<open>missions\<close> say what \<open>collection.doc(path).get()\<close> finds under a
    path; \<open>journeyEvents\<close> lists each user's events in the order they were inserted,
    and \<open>autoId uid k\<close> is the id the SDK generated for the \<open>k\<close>-th of them.
  \<^item> \<open>serverTime\<close> is the server's clock: the time it assigns to the
    \<open>serverTimestamp()\<close> sentinels of the next commit.
  \<^item> \<open>unavailable = Some m\<close>: \<open>runTransaction\<close> rejects with \<open>new Error(m)\<close>.
  \<^item> \<open>readError = Some m\<close>: a \<open>get()\<close> outside a transaction (lines 125 and 237)
    rejects with \<open>new Error(m)\<close>.
  \<^item> \<open>docPathError path = Some m\<close>: \<open>collection.doc(path)\<close> throws \<open>new Error(m)\<close>,
    as the SDK does for a string that is not the path of a document.
  \<^item> \<open>undefinedValueError field\<close> is the message of the error the SDK throws when
    the data of an \<open>update\<close> holds \<open>undefined\<close> at \<open>field\<close>.
\<close>

record firestore =
  users :: "string \<rightharpoonup> user_doc"
  missions :: "string \<rightharpoonup> mission_doc"
  journeyEvents :: "string \<Rightarrow> journey_event list"
  autoId :: "string \<Rightarrow> nat \<Rightarrow> string"
  serverTime :: nat
  unavailable :: "string option"
  readError :: "string option"
  docPathError :: "string \<Rightarrow> string option"
  undefinedValueError :: "string \<Rightarrow> string"

text \<open>
  The writes a transaction callback buffers: \<open>transaction.update(userDocRef,
  {activeMission: v})\<close>, where \<open>None\<close> is \<open>FieldValue.delete()\<close>, and
  \<open>transaction.set(journeyEventsRef.doc(), ev)\<close>.
\<close>

datatype pending_write =
  Update_activeMission string "active_mission option"
| Set_journeyEvent string journey_event

text \<open>
  What \<open>res.status(code).json(body)\<close> sends: \<open>{message}\<close>, \<open>{message, activeMission}\<close>
  or the array of journey events, each with the id of its document.
\<close>

datatype json =
  Message string
| MessageActiveMission string "active_mission option"
| Events "(string \<times> journey_event) list"

record response =
  code :: nat
  body :: json

section \<open>JavaScript primitives\<close>

text \<open>\<open>!v\<close> for a request field that is either missing or a string.\<close>

definition falsy :: "string option \<Rightarrow> bool" where
  "falsy v = (case v of None \<Rightarrow> True | Some s \<Rightarrow> s = [])"

fun startsWith :: "string \<Rightarrow> string \<Rightarrow> bool" where
  "startsWith s [] = True"
| "startsWith [] (c # cs) = False"
| "startsWith (x # xs) (c # cs) = (x = c \<and> startsWith xs cs)"

text \<open>\<open>String.prototype.includes\<close>, a substring test.\<close>

fun js_includes :: "string \<Rightarrow> string \<Rightarrow> bool" where
  "js_includes [] sub = (sub = [])"
| "js_includes (x # xs) sub = (startsWith (x # xs) sub \<or> js_includes xs sub)"

text \<open>
  \<open>if (d && d.toDate) d = d.toDate().toISOString()\<close> (lines 102-104, 136-138, 240-242);
  the library function \<open>toISOString\<close> is a parameter.
\<close>

fun toClient :: "(nat \<Rightarrow> string) \<Rightarrow> date_value \<Rightarrow> date_value" where
  "toClient toISOString (Timestamp t) = DateString (toISOString t)"
| "toClient toISOString d = d"

text \<open>
  A JavaScript number is a double. The handlers meet numbers only as decoded stored
  integers, so a number is given here by the integer it equals. \<open>nearest_double n\<close> is
  the double the SDK decodes the stored integer \<open>n\<close> to: \<open>n\<close> itself up to \<open>2^53\<close> in
  magnitude, and beyond that \<open>n\<close> rounded to 53 significant bits, a tie going to the
  even significand. \<open>excess_bits a\<close> counts the low bits that do not fit.
\<close>

function excess_bits :: "nat \<Rightarrow> nat" where
  "excess_bits a = (if a < 9007199254740992 then 0 else Suc (excess_bits (a div 2)))"
  by pat_completeness auto
termination
  by (relation "measure id") auto

declare excess_bits.simps [simp del]

definition nearest_double :: "int \<Rightarrow> int" where
  "nearest_double n =
     (let a = nat \<bar>n\<bar>; e = excess_bits a; q = a div 2 ^ e; r = a mod 2 ^ e
      in if e = 0 then n
         else sgn n *
              int ((if 2 ^ e < 2 * r \<or> (2 * r = 2 ^ e \<and> odd q) then q + 1 else q) * 2 ^ e))"

text \<open>\<open>typeof v === 'undefined'\<close> (lines 191 and 196).\<close>

definition typeof_undefined :: "field_value \<Rightarrow> bool" where
  "typeof_undefined v = (v = Missing)"

text \<open>
  \<open>ToNumber\<close>: \<open>undefined\<close> gives \<open>NaN\<close> (here \<open>None\<close>), \<open>null\<close> gives 0. \<open>js_less a b\<close> is
  \<open>a < b\<close> (line 202), false when either side is \<open>NaN\<close>.
\<close>

fun toNumber :: "field_value \<Rightarrow> int option" where
  "toNumber Missing = None"
| "toNumber NullValue = Some 0"
| "toNumber (IntegerValue n) = Some (nearest_double n)"

definition js_less :: "field_value \<Rightarrow> field_value \<Rightarrow> bool" where
  "js_less a b =
     (case toNumber a of
        None \<Rightarrow> False
      | Some x \<Rightarrow> (case toNumber b of None \<Rightarrow> False | Some y \<Rightarrow> x < y))"

section \<open>The storage collaborator\<close>

text \<open>
  \<open>collection.doc(documentPath)\<close> (lines 166, 167, 269, 316): the reference, or the
  error the SDK throws. The maps hold what \<open>doc(path).get()\<close> finds, so a path under
  which a document is stored is one the SDK accepts.
\<close>

definition doc :: "firestore \<Rightarrow> (string \<rightharpoonup> 'a) \<Rightarrow> string \<Rightarrow> string + string" where
  "doc db collection documentPath =
     (case collection documentPath of
        Some d \<Rightarrow> Inr documentPath
      | None \<Rightarrow>
          (case docPathError db documentPath of
             Some m \<Rightarrow> Inl m
           | None \<Rightarrow> Inr documentPath))"

text \<open>
  Committing a transaction resolves every \<open>serverTimestamp()\<close> sentinel to the
  server's time and applies the buffered writes together; the clock has moved on when
  the next commit arrives. \<open>update\<close> changes the one field of the document and keeps
  the others; every \<open>update\<close> of \<open>server.js\<close> follows an \<open>exists\<close> check of the same
  document in the same transaction, and for a missing document nothing is created.
  \<open>set\<close> on a fresh document reference appends to the sub-collection.
\<close>

fun resolve :: "nat \<Rightarrow> date_value \<Rightarrow> date_value" where
  "resolve t ServerTimestamp = Timestamp t"
| "resolve t d = d"

fun apply_write :: "nat \<Rightarrow> firestore \<Rightarrow> pending_write \<Rightarrow> firestore" where
  "apply_write t db (Update_activeMission uid v) =
     (case users db uid of
        None \<Rightarrow> db
      | Some u \<Rightarrow>
          db\<lparr>users := (users db)(uid \<mapsto>
            u\<lparr>activeMission := map_option (\<lambda>a. a\<lparr>startDate := resolve t (startDate a)\<rparr>) v\<rparr>)\<rparr>)"
| "apply_write t db (Set_journeyEvent uid ev) =
     db\<lparr>journeyEvents := (journeyEvents db)(uid :=
       journeyEvents db uid @ [ev\<lparr>eventDate := resolve t (eventDate ev)\<rparr>])\<rparr>"

definition commit :: "firestore \<Rightarrow> pending_write list \<Rightarrow> firestore" where
  "commit db ws =
     (foldl (apply_write (serverTime db)) db ws)\<lparr>serverTime := Suc (serverTime db)\<rparr>"

text \<open>
  \<open>db.runTransaction(updateFunction)\<close>: the callback reads a snapshot, throws an error
  (\<open>Inl\<close> its message) or returns its buffered writes and what it left in the variables
  of the enclosing handler. A throw aborts with no write applied and is rethrown to the
  handler; so is a failure of the storage layer itself.
\<close>

definition runTransaction ::
  "firestore \<Rightarrow> (firestore \<Rightarrow> string + pending_write list \<times> 'r) \<Rightarrow> string + firestore \<times> 'r" where
  "runTransaction db updateFunction =
     (case unavailable db of
        Some m \<Rightarrow> Inl m
      | None \<Rightarrow>
          (case updateFunction db of
             Inl m \<Rightarrow> Inl m
           | Inr (ws, r) \<Rightarrow> Inr (commit db ws, r)))"

section \<open>\<open>POST /api/missions/start\<close>\<close>

text \<open>
  Lines 190-204, the eligibility check of the start transaction (\<open>canStart\<close> of the
  specification): ship data, then mission data, then the comparison. \<open>toString\<close> is the
  text the engine puts for a value in a template literal, a parameter.
\<close>

definition canStart ::
  "(field_value \<Rightarrow> string) \<Rightarrow> user_doc \<Rightarrow> mission_doc \<Rightarrow> string + unit" where
  "canStart toString userData missionData =
     (case shipStatus userData of
        None \<Rightarrow> Inl ''Ship status data is incomplete for user.''
      | Some ship \<Rightarrow>
          if typeof_undefined (crewCurrent ship)
          then Inl ''Ship status data is incomplete for user.''
          else if typeof_undefined (crew missionData)
          then Inl ''Mission data is incomplete (missing crew requirement).''
          else if js_less (crewCurrent ship) (crew missionData)
          then Inl (''Insufficient crew. Required: '' @ toString (crew missionData) @
                    '', Available: '' @ toString (crewCurrent ship))
          else Inr ())"

text \<open>
  Lines 172-234, the transaction callback of start. \<open>transaction.update\<close> (line 213)
  throws when the new object holds \<open>undefined\<close>, that is when the mission document has
  no \<open>name\<close> or no \<open>durationSeconds\<close>; \<open>missionName\<close> comes first in the object.
\<close>

definition start_transaction ::
  "(field_value \<Rightarrow> string) \<Rightarrow> string \<Rightarrow> string \<Rightarrow> firestore \<Rightarrow>
   string + pending_write list \<times> unit" where
  "start_transaction toString userId mid db =
     (case users db userId of
        None \<Rightarrow> Inl ''User profile not found in Firestore.''
      | Some userData \<Rightarrow>
          (case missions db mid of
             None \<Rightarrow> Inl ''Mission details not found in Firestore.''
           | Some missionData \<Rightarrow>
               if activeMission userData \<noteq> None
               then Inl ''User already has an active mission.''
               else
                 (case canStart toString userData missionData of
                    Inl m \<Rightarrow> Inl m
                  | Inr _ \<Rightarrow>
                      (case name missionData of
                         None \<Rightarrow> Inl (undefinedValueError db ''activeMission.missionName'')
                       | Some missionDataName \<Rightarrow>
                           (case missionDuration missionData of
                              None \<Rightarrow>
                                Inl (undefinedValueError db ''activeMission.durationSeconds'')
                            | Some seconds \<Rightarrow>
                                Inr ([Update_activeMission userId
                                        (Some \<lparr>missionId = mid, missionName = missionDataName,
                                               startDate = ServerTimestamp,
                                               durationSeconds = seconds\<rparr>),
                                      Set_journeyEvent userId
                                        \<lparr>eventMissionId = mid,
                                         eventMissionName = missionDataName,
                                         status = ''started'', eventDate = ServerTimestamp\<rparr>],
                                     ()))))))"

text \<open>Lines 252-256.\<close>

definition start_isClientError :: "string \<Rightarrow> bool" where
  "start_isClientError m =
     (js_includes m ''User already'' \<or> js_includes m ''Insufficient crew'' \<or>
      js_includes m ''not found'' \<or> js_includes m ''required'' \<or>
      js_includes m ''incomplete'')"

text \<open>Lines 250-260, the \<open>catch\<close> block.\<close>

definition start_catch :: "string \<Rightarrow> response" where
  "start_catch m =
     \<lparr>code = (if start_isClientError m then 400 else 500),
      body = Message (if m = [] then ''Server error starting mission.'' else m)\<rparr>"

text \<open>
  Lines 156-261. The two document references are built inside the \<open>try\<close>, before the
  transaction. After the commit the handler reads the user document again, a storage
  call of its own; on a missing document \<open>updatedUserDoc.data()\<close> is \<open>undefined\<close> and
  reading its property throws a \<open>TypeError\<close>. The \<open>catch\<close> block receives all of these.
\<close>

definition start ::
  "(nat \<Rightarrow> string) \<Rightarrow> (field_value \<Rightarrow> string) \<Rightarrow> firestore \<Rightarrow> string \<Rightarrow> string option \<Rightarrow>
   firestore \<times> response" where
  "start toISOString toString db userId bodyMissionId =
     (case bodyMissionId of
        None \<Rightarrow> (db, \<lparr>code = 400, body = Message ''Mission ID is required.''\<rparr>)
      | Some mid \<Rightarrow>
          if mid = [] then (db, \<lparr>code = 400, body = Message ''Mission ID is required.''\<rparr>)
          else
            (case doc db (users db) userId of
               Inl m \<Rightarrow> (db, start_catch m)
             | Inr _ \<Rightarrow>
                 (case doc db (missions db) mid of
                    Inl m \<Rightarrow> (db, start_catch m)
                  | Inr _ \<Rightarrow>
                      (case runTransaction db (start_transaction toString userId mid) of
                         Inl m \<Rightarrow> (db, start_catch m)
                       | Inr (db', _) \<Rightarrow>
                           (case readError db' of
                              Some m \<Rightarrow> (db', start_catch m)
                            | None \<Rightarrow>
                                (case users db' userId of
                                   None \<Rightarrow>
                                     (db', start_catch
                                        ''Cannot read properties of undefined (reading 'activeMission')'')
                                 | Some updatedUser \<Rightarrow>
                                     (db', \<lparr>code = 200,
                                            body = MessageActiveMission
                                              ''Mission started successfully''
                                              (map_option
                                                 (\<lambda>a. a\<lparr>startDate :=
                                                    toClient toISOString (startDate a)\<rparr>)
                                                 (activeMission updatedUser))\<rparr>)))))))"

section \<open>\<open>POST /api/missions/cancel\<close>\<close>

text \<open>
  Lines 273-292, the transaction callback of cancel; it leaves the name of the
  canceled mission in \<open>CanceledMissionName\<close>.
\<close>

definition cancel_transaction ::
  "string \<Rightarrow> firestore \<Rightarrow> string + pending_write list \<times> string" where
  "cancel_transaction userId db =
     (case users db userId of
        None \<Rightarrow> Inl ''User profile not found.''
      | Some userData \<Rightarrow>
          (case activeMission userData of
             None \<Rightarrow> Inl ''No active mission to cancel.''
           | Some am \<Rightarrow>
               Inr ([Update_activeMission userId None,
                     Set_journeyEvent userId
                       \<lparr>eventMissionId = missionId am, eventMissionName = missionName am,
                        status = ''canceled'', eventDate = ServerTimestamp\<rparr>],
                    missionName am)))"

text \<open>Line 299.\<close>

definition cancel_isClientError :: "string \<Rightarrow> bool" where
  "cancel_isClientError m =
     (js_includes m ''No active mission'' \<or> js_includes m ''not found'')"

definition cancel_catch :: "string \<Rightarrow> response" where
  "cancel_catch m =
     \<lparr>code = (if cancel_isClientError m then 400 else 500),
      body = Message (if m = [] then ''Server error canceling mission.'' else m)\<rparr>"

text \<open>Lines 264-302.\<close>

definition cancel :: "firestore \<Rightarrow> string \<Rightarrow> firestore \<times> response" where
  \<open>cancel db userId =
     (case doc db (users db) userId of
        Inl m \<Rightarrow> (db, cancel_catch m)
      | Inr _ \<Rightarrow>
          (case runTransaction db (cancel_transaction userId) of
             Inl m \<Rightarrow> (db, cancel_catch m)
           | Inr (db', CanceledMissionName) \<Rightarrow>
               (db', \<lparr>code = 200,
                      body = Message (''Mission "'' @ CanceledMissionName @
                                      ''" canceled successfully.'')\<rparr>)))\<close>

section \<open>\<open>POST /api/missions/complete\<close>\<close>

text \<open>Lines 318-341, the transaction callback of complete.\<close>

definition complete_transaction ::
  "string \<Rightarrow> string \<Rightarrow> string \<Rightarrow> firestore \<Rightarrow> string + pending_write list \<times> unit" where
  "complete_transaction userId mid mname db =
     (case users db userId of
        None \<Rightarrow> Inl ''User profile not found.''
      | Some userData \<Rightarrow>
          (case activeMission userData of
             None \<Rightarrow>
               Inl ''No active mission found to complete. It might have been canceled or already completed.''
           | Some am \<Rightarrow>
               if missionId am \<noteq> mid
               then Inl ''The mission to complete does not match the currently active mission in the database.''
               else
                 Inr ([Update_activeMission userId None,
                       Set_journeyEvent userId
                         \<lparr>eventMissionId = mid, eventMissionName = mname,
                          status = ''completed'', eventDate = ServerTimestamp\<rparr>],
                      ())))"

text \<open>Line 348.\<close>

definition complete_isClientError :: "string \<Rightarrow> bool" where
  "complete_isClientError m =
     (js_includes m ''required'' \<or> js_includes m ''not found'' \<or>
      js_includes m ''does not match'' \<or>
      js_includes m ''No active mission found to complete'')"

definition complete_catch :: "string \<Rightarrow> response" where
  "complete_catch m =
     \<lparr>code = (if complete_isClientError m then 400 else 500),
      body = Message (if m = [] then ''Server error completing mission.'' else m)\<rparr>"

text \<open>Lines 305-351.\<close>

definition complete ::
  "firestore \<Rightarrow> string \<Rightarrow> string option \<Rightarrow> string option \<Rightarrow> firestore \<times> response" where
  \<open>complete db userId bodyMissionId bodyMissionName =
     (if falsy bodyMissionId \<or> falsy bodyMissionName
      then (db, \<lparr>code = 400, body = Message ''Mission ID and Mission Name are required.''\<rparr>)
      else
        (case (bodyMissionId, bodyMissionName) of
           (Some mid, Some mname) \<Rightarrow>
             (case doc db (users db) userId of
                Inl m \<Rightarrow> (db, complete_catch m)
              | Inr _ \<Rightarrow>
                  (case runTransaction db (complete_transaction userId mid mname) of
                     Inl m \<Rightarrow> (db, complete_catch m)
                   | Inr (db', _) \<Rightarrow>
                       (db', \<lparr>code = 200,
                              body = Message (''Mission "'' @ mname @
                                              ''" completed successfully.'')\<rparr>)))
         | _ \<Rightarrow> (db, \<lparr>code = 400,
                       body = Message ''Mission ID and Mission Name are required.''\<rparr>)))\<close>

section \<open>\<open>GET /api/user/journey-log\<close>\<close>

text \<open>
  The time of a stored event. Every event the handlers write is stamped at the commit,
  so the dates in the store are timestamps.
\<close>

definition eventTimestamp :: "journey_event \<Rightarrow> nat" where
  "eventTimestamp ev = (case eventDate ev of Timestamp t \<Rightarrow> t | _ \<Rightarrow> 0)"

text \<open>
  Modelled from the spec: the query \<open>journeyEventsRef.orderBy('eventDate', 'desc')\<close> is
  answered by the store, whose code is not in \<open>server.js\<close>. The specification says of
  the store (section 3, JourneyEvent): "Ordering: events are retrievable in descending
  eventTimestamp order; ties broken by insertion order." The argument lists the
  documents (id and data) in the order of insertion; the sort is stable.
\<close>

definition orderBy_eventDate_desc ::
  "(string \<times> journey_event) list \<Rightarrow> (string \<times> journey_event) list" where
  "orderBy_eventDate_desc docs =
     sort_key (\<lambda>(docId, data). - int (eventTimestamp data)) docs"

text \<open>The documents of a user's sub-collection, in the order of insertion.\<close>

definition journeyEventDocs :: "firestore \<Rightarrow> string \<Rightarrow> (string \<times> journey_event) list" where
  "journeyEventDocs db userId =
     zip (map (autoId db userId) [0 ..< length (journeyEvents db userId)])
         (journeyEvents db userId)"

definition journey_log_catch :: "string \<Rightarrow> response" where
  "journey_log_catch m =
     \<lparr>code = 500,
      body = Message (if m = [] then ''Server error fetching journey log.'' else m)\<rparr>"

text \<open>
  Lines 118-153. The handler walks the snapshot with \<open>forEach\<close> and pushes one entry
  per document, in the snapshot's order.
\<close>

definition journey_log :: "(nat \<Rightarrow> string) \<Rightarrow> firestore \<Rightarrow> string \<Rightarrow> response" where
  "journey_log toISOString db userId =
     (case doc db (users db) userId of
        Inl m \<Rightarrow> journey_log_catch m
      | Inr _ \<Rightarrow>
          (case readError db of
             Some m \<Rightarrow> journey_log_catch m
           | None \<Rightarrow>
               (let docs = orderBy_eventDate_desc (journeyEventDocs db userId)
                in if docs = [] then \<lparr>code = 200, body = Events []\<rparr>
                   else \<lparr>code = 200,
                         body = Events
                           (map (\<lambda>(docId, data).
                                   (docId, data\<lparr>eventDate :=
                                      toClient toISOString (eventDate data)\<rparr>))
                                docs)\<rparr>)))"

section \<open>Sample data\<close>

text \<open>
  Stand-ins for the engine's functions in the samples. \<open>string_of_int\<close> writes an integer
  in decimal, which is the engine's text for a number up to \<open>2^53\<close> in magnitude; the
  samples print no other. \<open>digit\<close> is only applied to numbers below 10.
\<close>

definition digit :: "nat \<Rightarrow> char" where
  "digit n = ''0123456789'' ! n"

function string_of_nat :: "nat \<Rightarrow> string" where
  "string_of_nat n =
     (if n < 10 then [digit n] else string_of_nat (n div 10) @ [digit (n mod 10)])"
  by pat_completeness auto
termination
  by (relation "measure id") auto

definition string_of_int :: "int \<Rightarrow> string" where
  "string_of_int i =
     (if i < 0 then CHR ''-'' # string_of_nat (nat (- i)) else string_of_nat (nat i))"

fun sample_toString :: "field_value \<Rightarrow> string" where
  "sample_toString Missing = ''undefined''"
| "sample_toString NullValue = ''null''"
| "sample_toString (IntegerValue n) = string_of_int n"

definition sample_toISOString :: "nat \<Rightarrow> string" where
  "sample_toISOString t = ''T+'' @ string_of_nat t"

definition lunar_survey :: mission_doc where
  "lunar_survey =
     \<lparr>name = Some ''Lunar Survey'', crew = IntegerValue 3, missionDuration = Some 3600\<rparr>"

definition unstaffed_mission :: mission_doc where
  "unstaffed_mission = \<lparr>name = Some ''Drift'', crew = Missing, missionDuration = Some 60\<rparr>"

definition open_mission :: mission_doc where
  "open_mission = \<lparr>name = Some ''Open Call'', crew = NullValue, missionDuration = Some 60\<rparr>"

definition grand_fleet :: mission_doc where
  "grand_fleet =
     \<lparr>name = Some ''Grand Fleet'', crew = IntegerValue 9007199254740993,
      missionDuration = Some 60\<rparr>"

definition idle_user :: "field_value \<Rightarrow> user_doc" where
  "idle_user c = \<lparr>activeMission = None, shipStatus = Some \<lparr>crewCurrent = c\<rparr>\<rparr>"

definition busy_user :: user_doc where
  "busy_user =
     \<lparr>activeMission = Some \<lparr>missionId = ''m1'', missionName = ''Lunar Survey'',
                             startDate = Timestamp 4, durationSeconds = 3600\<rparr>,
      shipStatus = None\<rparr>"

definition lunar_started :: journey_event where
  "lunar_started =
     \<lparr>eventMissionId = ''m1'', eventMissionName = ''Lunar Survey'',
      status = ''started'', eventDate = Timestamp 4\<rparr>"

definition lunar_canceled :: journey_event where
  "lunar_canceled =
     \<lparr>eventMissionId = ''m1'', eventMissionName = ''Lunar Survey'',
      status = ''canceled'', eventDate = Timestamp 8\<rparr>"

text \<open>
  In the samples the SDK refuses a path with a slash in it and names the field of an
  \<open>undefined\<close> value in its message.
\<close>

definition sample_db :: firestore where
  "sample_db =
     \<lparr>users = [''crew5'' \<mapsto> idle_user (IntegerValue 5),
               ''crew2'' \<mapsto> idle_user (IntegerValue 2),
               ''blank'' \<mapsto> idle_user Missing,
               ''wide'' \<mapsto> idle_user (IntegerValue 9007199254740992),
               ''busy'' \<mapsto> busy_user],
      missions = [''m1'' \<mapsto> lunar_survey, ''m2'' \<mapsto> unstaffed_mission,
                  ''m3'' \<mapsto> grand_fleet],
      journeyEvents = (\<lambda>uid. [])(''busy'' := [lunar_started]),
      autoId = (\<lambda>uid k. ''event'' @ string_of_nat k),
      serverTime = 9,
      unavailable = None,
      readError = None,
      docPathError =
        (\<lambda>path. if CHR ''/'' \<in> set path
                then Some ''Value for argument documentPath must point to a document.''
                else None),
      undefinedValueError =
        (\<lambda>field. ''Cannot use undefined as a Firestore value (found in field '' @ field @ '').'')\<rparr>"


definition logged_db :: firestore where
  "logged_db =
     sample_db\<lparr>journeyEvents := (journeyEvents sample_db)
                 (''crew5'' := [lunar_started, lunar_canceled])\<rparr>"

section \<open>Properties\<close>

subsection \<open>Substring tests and the start handler, case by case\<close>

lemma startsWith_append: "startsWith (p @ s) p"
  by (induction p) auto

lemma js_includes_append: "js_includes (p @ s) p"
  by (cases "p @ s") (auto simp: startsWith_append[of p s, simplified] dest: sym)

lemma insufficient_is_client_error:
  "start_isClientError (''Insufficient crew. Required: '' @ a @ '', Available: '' @ b)"
  unfolding start_isClientError_def
  using js_includes_append[of "''Insufficient crew''" "''. Required: '' @ a @ '', Available: '' @ b"]
  by simp

lemma canStart_is_client_error:
  "canStart g u m = Inl e \<Longrightarrow> start_isClientError e \<and> e \<noteq> []"
  using insufficient_is_client_error
  by (auto simp: canStart_def start_isClientError_def split: option.splits if_splits)

lemma excess_bits_small: "a < 9007199254740992 \<Longrightarrow> excess_bits a = 0"
  by (subst excess_bits.simps) simp

lemma nearest_double_exact: "\<bar>n\<bar> < 9007199254740992 \<Longrightarrow> nearest_double n = n"
  by (simp add: nearest_double_def excess_bits_small)

lemma excess_bits_2_53: "excess_bits 9007199254740992 = 1"
  by (subst excess_bits.simps) (simp add: excess_bits_small)

lemma excess_bits_2_53_1: "excess_bits 9007199254740993 = 1"
  by (subst excess_bits.simps) (simp add: excess_bits_small)

lemma nearest_double_2_53: "nearest_double 9007199254740992 = 9007199254740992"
  by (simp add: nearest_double_def excess_bits_2_53 Let_def)

lemma nearest_double_2_53_1: "nearest_double 9007199254740993 = 9007199254740992"
  by (simp add: nearest_double_def excess_bits_2_53_1 Let_def)

lemma js_less_exact:
  "\<bar>a\<bar> < 9007199254740992 \<Longrightarrow> \<bar>b\<bar> < 9007199254740992 \<Longrightarrow>
   js_less (IntegerValue a) (IntegerValue b) = (a < b)"
  by (simp add: js_less_def nearest_double_exact)

lemma doc_stored: "collection path = Some d \<Longrightarrow> doc db collection path = Inr path"
  by (simp add: doc_def)

lemma doc_accepted:
  "collection path = None \<Longrightarrow> docPathError db path = None \<Longrightarrow> doc db collection path = Inr path"
  by (simp add: doc_def)

lemma doc_refused:
  "collection path = None \<Longrightarrow> docPathError db path = Some e \<Longrightarrow> doc db collection path = Inl e"
  by (simp add: doc_def)

lemma start_missing_id:
  "falsy mid \<Longrightarrow>
   start f g db uid mid = (db, \<lparr>code = 400, body = Message ''Mission ID is required.''\<rparr>)"
  by (auto simp: start_def falsy_def split: option.splits)


lemma start_mission_path_refused:
  "mid \<noteq> [] \<Longrightarrow> users db uid = Some u \<Longrightarrow> missions db mid = None \<Longrightarrow>
   docPathError db mid = Some e \<Longrightarrow> start f g db uid (Some mid) = (db, start_catch e)"
  by (simp add: start_def doc_stored doc_refused)

lemma start_mission_not_found:
  "mid \<noteq> [] \<Longrightarrow> unavailable db = None \<Longrightarrow> users db uid = Some u \<Longrightarrow> missions db mid = None \<Longrightarrow>
   docPathError db mid = None \<Longrightarrow>
   start f g db uid (Some mid) =
     (db, \<lparr>code = 400, body = Message ''Mission details not found in Firestore.''\<rparr>)"
  by (simp add: start_def doc_stored doc_accepted runTransaction_def start_transaction_def
      start_catch_def start_isClientError_def)

lemma start_already_active:
  "mid \<noteq> [] \<Longrightarrow> unavailable db = None \<Longrightarrow> users db uid = Some u \<Longrightarrow>
   missions db mid = Some m \<Longrightarrow> activeMission u = Some am \<Longrightarrow>
   start f g db uid (Some mid) =
     (db, \<lparr>code = 400, body = Message ''User already has an active mission.''\<rparr>)"
  by (simp add: start_def doc_stored runTransaction_def start_transaction_def start_catch_def
      start_isClientError_def)

lemma start_ineligible:
  "mid \<noteq> [] \<Longrightarrow> unavailable db = None \<Longrightarrow> users db uid = Some u \<Longrightarrow>
   missions db mid = Some m \<Longrightarrow> activeMission u = None \<Longrightarrow> canStart g u m = Inl e \<Longrightarrow>
   start f g db uid (Some mid) = (db, \<lparr>code = 400, body = Message e\<rparr>)"
  using canStart_is_client_error[of g u m e]
  by (simp add: start_def doc_stored runTransaction_def start_transaction_def start_catch_def)

lemma start_success:
  "mid \<noteq> [] \<Longrightarrow> unavailable db = None \<Longrightarrow> users db uid = Some u \<Longrightarrow>
   missions db mid = Some m \<Longrightarrow> activeMission u = None \<Longrightarrow> canStart g u m = Inr () \<Longrightarrow>
   name m = Some nm \<Longrightarrow> missionDuration m = Some seconds \<Longrightarrow> readError db = None \<Longrightarrow>
   start f g db uid (Some mid) =
     (db\<lparr>users := (users db)(uid \<mapsto> u\<lparr>activeMission :=
             Some \<lparr>missionId = mid, missionName = nm,
                   startDate = Timestamp (serverTime db),
                   durationSeconds = seconds\<rparr>\<rparr>),
         journeyEvents := (journeyEvents db)(uid := journeyEvents db uid @
             [\<lparr>eventMissionId = mid, eventMissionName = nm, status = ''started'',
               eventDate = Timestamp (serverTime db)\<rparr>]),
         serverTime := Suc (serverTime db)\<rparr>,
      \<lparr>code = 200,
       body = MessageActiveMission ''Mission started successfully''
                (Some \<lparr>missionId = mid, missionName = nm,
                       startDate = DateString (f (serverTime db)),
                       durationSeconds = seconds\<rparr>)\<rparr>)"
  by (simp add: start_def doc_stored runTransaction_def start_transaction_def commit_def)

text \<open>
  C4, as the code has it. An idle user (no \<open>activeMission\<close>) asks to start an existing
  mission while \<open>crewCurrent < crew\<close> holds as line 202 evaluates it, on the numbers the
  handler reads (a stored integer as the nearest double, a stored \<open>null\<close> as 0): the
  call answers 400 with the "Insufficient crew" message and returns the database as it
  was, so no active mission is created and no journey event is appended.
\<close>

theorem start_insufficient_crew:
  assumes "users db uid = Some u" and "activeMission u = None"
    and "shipStatus u = Some ship" and "crewCurrent ship = cur"
    and "missions db mid = Some m" and "crew m = req"
    and "js_less cur req" and "mid \<noteq> []" and "unavailable db = None"
  shows "start f g db uid (Some mid) =
           (db, \<lparr>code = 400,
                 body = Message (''Insufficient crew. Required: '' @ g req @
                                 '', Available: '' @ g cur)\<rparr>)"
proof -
  from \<open>js_less cur req\<close> have "cur \<noteq> Missing" "req \<noteq> Missing"
    by (auto simp: js_less_def split: option.splits)
  with assms have "canStart g u m =
      Inl (''Insufficient crew. Required: '' @ g req @ '', Available: '' @ g cur)"
    by (simp add: canStart_def typeof_undefined_def)
  then show ?thesis
    using assms start_ineligible by blast
qed

text \<open>C4 at the specification's own numbers: crew 2 against a requirement of 3.\<close>

theorem start_insufficient_crew_witness:
  "js_less (IntegerValue 2) (IntegerValue 3) \<and>
   start sample_toISOString sample_toString sample_db ''crew2'' (Some ''m1'') =
     (sample_db, \<lparr>code = 400, body = Message ''Insufficient crew. Required: 3, Available: 2''\<rparr>)"
  using start_insufficient_crew[of sample_db "''crew2''" "idle_user (IntegerValue 2)"
      "\<lparr>crewCurrent = IntegerValue 2\<rparr>" "IntegerValue 2" "''m1''" lunar_survey "IntegerValue 3"
      sample_toISOString sample_toString]
  by (simp add: sample_db_def idle_user_def lunar_survey_def string_of_int_def digit_def
      js_less_def nearest_double_exact)

text \<open>
  C4 as stated fails: the stored \<open>crewCurrent\<close> is \<open>2^53\<close>, the mission requires
  \<open>2^53 + 1\<close>, and the handler reads both as the same number; start answers 200 and
  writes the active mission and the journey event.
\<close>

theorem start_crew_beyond_double_precision:
  "users sample_db ''wide'' = Some (idle_user (IntegerValue 9007199254740992)) \<and>
   missions sample_db ''m3'' = Some grand_fleet \<and>
   crew grand_fleet = IntegerValue 9007199254740993 \<and>
   (9007199254740992 :: int) < 9007199254740993 \<and>
   code (snd (start sample_toISOString sample_toString sample_db ''wide'' (Some ''m3''))) = 200 \<and>
   map_option activeMission
     (users (fst (start sample_toISOString sample_toString sample_db ''wide'' (Some ''m3'')))
        ''wide'') =
     Some (Some \<lparr>missionId = ''m3'', missionName = ''Grand Fleet'',
                 startDate = Timestamp 9, durationSeconds = 60\<rparr>) \<and>
   journeyEvents
     (fst (start sample_toISOString sample_toString sample_db ''wide'' (Some ''m3''))) ''wide'' =
     [\<lparr>eventMissionId = ''m3'', eventMissionName = ''Grand Fleet'', status = ''started'',
       eventDate = Timestamp 9\<rparr>]"
  by (simp add: start_def doc_def runTransaction_def start_transaction_def commit_def
      canStart_def typeof_undefined_def js_less_def nearest_double_2_53 nearest_double_2_53_1
      sample_db_def idle_user_def grand_fleet_def)

text \<open>
  C10. The active-mission check (line 186) comes before the ship-data, mission-data
  and crew checks (lines 191-204): for a user with an active mission and a requested
  mission that exists, start answers "User already has an active mission." whatever
  \<open>shipStatus\<close>, \<open>crewCurrent\<close> and \<open>crew\<close> hold; no hypothesis constrains them.
\<close>

theorem start_already_active_before_crew_checks:
  assumes "users db uid = Some u" and "activeMission u = Some am"
    and "missions db mid = Some m" and "mid \<noteq> []" and "unavailable db = None"
  shows "start f g db uid (Some mid) =
           (db, \<lparr>code = 400, body = Message ''User already has an active mission.''\<rparr>)"
  using assms start_already_active by blast

text \<open>
  C10 for a user with an active mission and no ship status at all, asking for a mission
  without a crew requirement.
\<close>

theorem start_already_active_before_crew_checks_witness:
  "shipStatus busy_user = None \<and> crew unstaffed_mission = Missing \<and>
   start sample_toISOString sample_toString sample_db ''busy'' (Some ''m2'') =
     (sample_db, \<lparr>code = 400, body = Message ''User already has an active mission.''\<rparr>)"
  using start_already_active_before_crew_checks[of sample_db "''busy''" busy_user
      "the (activeMission busy_user)" "''m2''" unstaffed_mission sample_toISOString
      sample_toString]
  by (simp add: sample_db_def busy_user_def unstaffed_mission_def)

lemma start_catch_code: "code (start_catch m) \<noteq> 200"
  by (simp add: start_catch_def)

lemma start_active_unchanged:
  assumes "users db uid = Some u" and "activeMission u = Some am"
  shows "fst (start f g db uid req) = db \<and> code (snd (start f g db uid req)) \<noteq> 200"
  using assms
  by (auto simp: start_def doc_def runTransaction_def start_transaction_def start_catch_def
      split: option.splits)

text \<open>
  C1, as the code has it. For a user with an active mission every start call fails and
  returns the database as it was: nothing is overwritten or appended. With the store
  available the reason follows the order of the guards: a missing or empty
  \<open>missionId\<close> is rejected first (line 162); then an id for which the SDK builds no
  document reference (line 167), answered with the SDK's own message as the \<open>catch\<close>
  block classifies it; then an unknown mission (line 179); and only a call that names
  an existing mission meets "User already has an active mission." (line 186).
\<close>

theorem start_when_active:
  assumes "users db uid = Some u" and "activeMission u = Some am"
  shows "fst (start f g db uid req) = db \<and> code (snd (start f g db uid req)) \<noteq> 200 \<and>
         (unavailable db = None \<longrightarrow>
            snd (start f g db uid req) =
              (case req of
                 None \<Rightarrow> \<lparr>code = 400, body = Message ''Mission ID is required.''\<rparr>
               | Some mid \<Rightarrow>
                   if mid = [] then \<lparr>code = 400, body = Message ''Mission ID is required.''\<rparr>
                   else
                     (case missions db mid of
                        Some m \<Rightarrow>
                          \<lparr>code = 400, body = Message ''User already has an active mission.''\<rparr>
                      | None \<Rightarrow>
                          (case docPathError db mid of
                             Some e \<Rightarrow> start_catch e
                           | None \<Rightarrow>
                               \<lparr>code = 400,
                                body = Message ''Mission details not found in Firestore.''\<rparr>))))"
proof (intro conjI impI)
  show "fst (start f g db uid req) = db" "code (snd (start f g db uid req)) \<noteq> 200"
    using assms start_active_unchanged by blast+
next
  assume av: "unavailable db = None"
  show "snd (start f g db uid req) =
              (case req of
                 None \<Rightarrow> \<lparr>code = 400, body = Message ''Mission ID is required.''\<rparr>
               | Some mid \<Rightarrow>
                   if mid = [] then \<lparr>code = 400, body = Message ''Mission ID is required.''\<rparr>
                   else
                     (case missions db mid of
                        Some m \<Rightarrow>
                          \<lparr>code = 400, body = Message ''User already has an active mission.''\<rparr>
                      | None \<Rightarrow>
                          (case docPathError db mid of
                             Some e \<Rightarrow> start_catch e
                           | None \<Rightarrow>
                               \<lparr>code = 400,
                                body = Message ''Mission details not found in Firestore.''\<rparr>)))"
  proof (cases req)
    case None
    then show ?thesis by (simp add: start_missing_id falsy_def)
  next
    case (Some mid)
    show ?thesis
    proof (cases "mid = []")
      case True
      with Some show ?thesis by (simp add: start_missing_id falsy_def)
    next
      case False
      show ?thesis
      proof (cases "missions db mid")
        case None
        note nomission = this
        show ?thesis
        proof (cases "docPathError db mid")
          case None
          with nomission Some False av assms show ?thesis
            by (simp add: start_mission_not_found)
        next
          case (Some e)
          with nomission \<open>req = Some mid\<close> False assms show ?thesis
            by (simp add: start_mission_path_refused)
        qed
      next
        case (Some m)
        with \<open>req = Some mid\<close> False av assms show ?thesis
          by (simp add: start_already_active)
      qed
    qed
  qed
qed

text \<open>
  C1, the second start of the same, existing mission; and a start whose \<open>missionId\<close>
  the sample SDK refuses.
\<close>

theorem start_when_active_witness:
  "users sample_db ''busy'' = Some busy_user \<and>
   start sample_toISOString sample_toString sample_db ''busy'' (Some ''m1'') =
     (sample_db, \<lparr>code = 400, body = Message ''User already has an active mission.''\<rparr>) \<and>
   start sample_toISOString sample_toString sample_db ''busy'' (Some ''a/b'') =
     (sample_db, \<lparr>code = 500,
        body = Message ''Value for argument documentPath must point to a document.''\<rparr>)"
  using start_when_active[of sample_db "''busy''" busy_user
      "the (activeMission busy_user)" sample_toISOString sample_toString "Some ''m1''"]
    start_when_active[of sample_db "''busy''" busy_user
      "the (activeMission busy_user)" sample_toISOString sample_toString "Some ''a/b''"]
  by (simp add: sample_db_def busy_user_def prod_eq_iff start_catch_def start_isClientError_def)

text \<open>
  C1 as stated fails: a user with an active mission who names a mission that is not in
  the catalog is answered "Mission details not found in Firestore.", not
  "User already has an active mission.".
\<close>

theorem start_when_active_unknown_mission:
  "start sample_toISOString sample_toString sample_db ''busy'' (Some ''m404'') =
     (sample_db, \<lparr>code = 400, body = Message ''Mission details not found in Firestore.''\<rparr>) \<and>
   body (snd (start sample_toISOString sample_toString sample_db ''busy'' (Some ''m404''))) \<noteq>
     Message ''User already has an active mission.'' \<and>
   activeMission busy_user \<noteq> None \<and>
   users sample_db ''busy'' = Some busy_user"
  by (simp add: start_mission_not_found[of _ _ _ busy_user] sample_db_def busy_user_def)

text \<open>
  C5, as the code has it. The eligibility check reports incomplete ship data when
  \<open>shipStatus\<close> is missing or has no \<open>crewCurrent\<close> field, whatever the mission holds; it
  reports incomplete mission data when \<open>crewCurrent\<close> is there and the mission has no
  \<open>crew\<close> field. A field that is there passes its guard also when it holds \<open>null\<close>. With
  both fields there, the check reports insufficient crew when \<open>crewCurrent < crew\<close>
  holds as line 202 evaluates it (a stored integer read as the nearest double, \<open>null\<close>
  as 0), and succeeds otherwise.
\<close>

theorem canStart_order:
  "(shipStatus u = None \<longrightarrow> canStart g u m = Inl ''Ship status data is incomplete for user.'') \<and>
   (shipStatus u = Some ship \<and> crewCurrent ship = Missing \<longrightarrow>
      canStart g u m = Inl ''Ship status data is incomplete for user.'') \<and>
   (shipStatus u = Some ship \<and> crewCurrent ship \<noteq> Missing \<and> crew m = Missing \<longrightarrow>
      canStart g u m = Inl ''Mission data is incomplete (missing crew requirement).'') \<and>
   (shipStatus u = Some ship \<and> crewCurrent ship \<noteq> Missing \<and> crew m \<noteq> Missing \<and>
    js_less (crewCurrent ship) (crew m) \<longrightarrow>
      canStart g u m =
        Inl (''Insufficient crew. Required: '' @ g (crew m) @
             '', Available: '' @ g (crewCurrent ship))) \<and>
   (shipStatus u = Some ship \<and> crewCurrent ship \<noteq> Missing \<and> crew m \<noteq> Missing \<and>
    \<not> js_less (crewCurrent ship) (crew m) \<longrightarrow>
      canStart g u m = Inr ())"
  by (simp add: canStart_def typeof_undefined_def)

text \<open>C5 on the sample documents, one per outcome.\<close>

theorem canStart_order_witness:
  "canStart sample_toString busy_user lunar_survey =
     Inl ''Ship status data is incomplete for user.'' \<and>
   canStart sample_toString (idle_user Missing) lunar_survey =
     Inl ''Ship status data is incomplete for user.'' \<and>
   canStart sample_toString (idle_user (IntegerValue 5)) unstaffed_mission =
     Inl ''Mission data is incomplete (missing crew requirement).'' \<and>
   canStart sample_toString (idle_user (IntegerValue 2)) lunar_survey =
     Inl ''Insufficient crew. Required: 3, Available: 2'' \<and>
   canStart sample_toString (idle_user (IntegerValue 5)) lunar_survey = Inr ()"
  using canStart_order[of busy_user sample_toString lunar_survey "\<lparr>crewCurrent = Missing\<rparr>"]
    canStart_order[of "idle_user Missing" sample_toString lunar_survey
      "\<lparr>crewCurrent = Missing\<rparr>"]
    canStart_order[of "idle_user (IntegerValue 5)" sample_toString unstaffed_mission
      "\<lparr>crewCurrent = IntegerValue 5\<rparr>"]
    canStart_order[of "idle_user (IntegerValue 2)" sample_toString lunar_survey
      "\<lparr>crewCurrent = IntegerValue 2\<rparr>"]
    canStart_order[of "idle_user (IntegerValue 5)" sample_toString lunar_survey
      "\<lparr>crewCurrent = IntegerValue 5\<rparr>"]
  by (simp add: idle_user_def lunar_survey_def unstaffed_mission_def busy_user_def
      string_of_int_def digit_def js_less_def nearest_double_exact)

text \<open>
  C5 as stated fails, in three ways. With the mission's crew requirement missing and
  \<open>crewCurrent\<close> missing too, the check reports incomplete ship data, not incomplete
  mission data. With the crew requirement stored as \<open>null\<close> the check reports nothing
  and succeeds. With \<open>crewCurrent\<close> stored as \<open>null\<close> it reports insufficient crew, not
  incomplete ship data.
\<close>

theorem canStart_missing_and_null:
  "crew unstaffed_mission = Missing \<and>
   canStart sample_toString (idle_user Missing) unstaffed_mission =
     Inl ''Ship status data is incomplete for user.'' \<and>
   canStart sample_toString (idle_user Missing) unstaffed_mission \<noteq>
     Inl ''Mission data is incomplete (missing crew requirement).'' \<and>
   crew open_mission = NullValue \<and>
   canStart sample_toString (idle_user (IntegerValue 5)) open_mission = Inr () \<and>
   canStart sample_toString (idle_user NullValue) lunar_survey =
     Inl ''Insufficient crew. Required: 3, Available: null''"
  by (simp add: canStart_def typeof_undefined_def js_less_def nearest_double_exact
      idle_user_def unstaffed_mission_def open_mission_def lunar_survey_def
      string_of_int_def digit_def)

subsection \<open>Cancel and complete, case by case\<close>

lemma cancel_idle:
  "unavailable db = None \<Longrightarrow> users db uid = Some u \<Longrightarrow> activeMission u = None \<Longrightarrow>
   cancel db uid = (db, \<lparr>code = 400, body = Message ''No active mission to cancel.''\<rparr>)"
  by (simp add: cancel_def doc_stored runTransaction_def cancel_transaction_def cancel_catch_def
      cancel_isClientError_def)


lemma complete_missing_parameters:
  "falsy a \<or> falsy b \<Longrightarrow>
   complete db uid a b =
     (db, \<lparr>code = 400, body = Message ''Mission ID and Mission Name are required.''\<rparr>)"
  by (simp add: complete_def)


lemma complete_idle:
  "mid \<noteq> [] \<Longrightarrow> mname \<noteq> [] \<Longrightarrow> unavailable db = None \<Longrightarrow> users db uid = Some u \<Longrightarrow>
   activeMission u = None \<Longrightarrow>
   complete db uid (Some mid) (Some mname) =
     (db, \<lparr>code = 400,
           body = Message ''No active mission found to complete. It might have been canceled or already completed.''\<rparr>)"
  by (simp add: complete_def doc_stored runTransaction_def falsy_def complete_transaction_def
      complete_catch_def complete_isClientError_def)

lemma complete_mismatch:
  "mid \<noteq> [] \<Longrightarrow> mname \<noteq> [] \<Longrightarrow> unavailable db = None \<Longrightarrow> users db uid = Some u \<Longrightarrow>
   activeMission u = Some am \<Longrightarrow> missionId am \<noteq> mid \<Longrightarrow>
   complete db uid (Some mid) (Some mname) =
     (db, \<lparr>code = 400,
           body = Message ''The mission to complete does not match the currently active mission in the database.''\<rparr>)"
  by (simp add: complete_def doc_stored runTransaction_def falsy_def complete_transaction_def
      complete_catch_def complete_isClientError_def)

lemma complete_success:
  \<open>mid \<noteq> [] \<Longrightarrow> mname \<noteq> [] \<Longrightarrow> unavailable db = None \<Longrightarrow> users db uid = Some u \<Longrightarrow>
   activeMission u = Some am \<Longrightarrow> missionId am = mid \<Longrightarrow>
   complete db uid (Some mid) (Some mname) =
     (db\<lparr>users := (users db)(uid \<mapsto> u\<lparr>activeMission := None\<rparr>),
         journeyEvents := (journeyEvents db)(uid := journeyEvents db uid @
           [\<lparr>eventMissionId = mid, eventMissionName = mname, status = ''completed'',
             eventDate = Timestamp (serverTime db)\<rparr>]),
         serverTime := Suc (serverTime db)\<rparr>,
      \<lparr>code = 200, body = Message (''Mission "'' @ mname @ ''" completed successfully.'')\<rparr>)\<close>
  by (simp add: complete_def doc_stored runTransaction_def falsy_def complete_transaction_def
      commit_def)

text \<open>
  C2, as the code has it. For an idle user (no \<open>activeMission\<close>) and an available
  store, cancel answers 400 "No active mission to cancel."; complete answers 400, with
  "No active mission found to complete..." when \<open>missionId\<close> and \<open>missionName\<close> are
  both supplied and non-empty, and with "Mission ID and Mission Name are required."
  otherwise (line 312 runs before the transaction). Both return the database as it was:
  no journey event, no change of the profile.
\<close>

theorem idle_cancel_complete:
  assumes "users db uid = Some u" and "activeMission u = None" and "unavailable db = None"
  shows "cancel db uid = (db, \<lparr>code = 400, body = Message ''No active mission to cancel.''\<rparr>) \<and>
         complete db uid a b =
           (db, \<lparr>code = 400,
                 body = Message
                   (if falsy a \<or> falsy b then ''Mission ID and Mission Name are required.''
                    else ''No active mission found to complete. It might have been canceled or already completed.'')\<rparr>)"
proof
  show "cancel db uid = (db, \<lparr>code = 400, body = Message ''No active mission to cancel.''\<rparr>)"
    using assms by (simp add: cancel_idle)
next
  show "complete db uid a b =
           (db, \<lparr>code = 400,
                 body = Message
                   (if falsy a \<or> falsy b then ''Mission ID and Mission Name are required.''
                    else ''No active mission found to complete. It might have been canceled or already completed.'')\<rparr>)"
  proof (cases "falsy a \<or> falsy b")
    case True
    then show ?thesis by (simp add: complete_missing_parameters)
  next
    case False
    then obtain mid mname where "a = Some mid" "b = Some mname" "mid \<noteq> []" "mname \<noteq> []"
      by (auto simp: falsy_def split: option.splits)
    with False assms show ?thesis
      by (simp add: complete_idle)
  qed
qed

text \<open>C2 for an idle sample user.\<close>

theorem idle_cancel_complete_witness:
  "users sample_db ''crew5'' = Some (idle_user (IntegerValue 5)) \<and>
   cancel sample_db ''crew5'' =
     (sample_db, \<lparr>code = 400, body = Message ''No active mission to cancel.''\<rparr>) \<and>
   complete sample_db ''crew5'' (Some ''m1'') (Some ''Lunar Survey'') =
     (sample_db, \<lparr>code = 400,
       body = Message ''No active mission found to complete. It might have been canceled or already completed.''\<rparr>)"
  using idle_cancel_complete[of sample_db "''crew5''" "idle_user (IntegerValue 5)" "Some ''m1''"
      "Some ''Lunar Survey''"]
  by (simp add: sample_db_def idle_user_def falsy_def)

text \<open>
  C2 as stated fails: complete for an idle user without \<open>missionName\<close> is answered
  "Mission ID and Mission Name are required.", although the transaction, had it run,
  would have found no active mission.
\<close>

theorem idle_complete_without_name:
  "users sample_db ''crew5'' = Some (idle_user (IntegerValue 5)) \<and>
   activeMission (idle_user (IntegerValue 5)) = None \<and>
   complete sample_db ''crew5'' (Some ''m1'') None =
     (sample_db, \<lparr>code = 400, body = Message ''Mission ID and Mission Name are required.''\<rparr>) \<and>
   complete_transaction ''crew5'' ''m1'' ''Lunar Survey'' sample_db =
     Inl ''No active mission found to complete. It might have been canceled or already completed.''"
  by (simp add: complete_def falsy_def complete_transaction_def sample_db_def idle_user_def)

text \<open>
  C3, as the code has it. The stored active mission has an id other than the supplied
  one: complete answers 400 and returns the database as it was; the reason is the
  mismatch message when the supplied \<open>missionId\<close> and \<open>missionName\<close> are both
  non-empty, and "Mission ID and Mission Name are required." otherwise.
\<close>

theorem complete_with_other_id:
  assumes "users db uid = Some u" and "activeMission u = Some am"
    and "missionId am \<noteq> mid" and "unavailable db = None"
  shows "complete db uid (Some mid) b =
           (db, \<lparr>code = 400,
                 body = Message
                   (if mid = [] \<or> falsy b then ''Mission ID and Mission Name are required.''
                    else ''The mission to complete does not match the currently active mission in the database.'')\<rparr>)"
proof (cases "mid = [] \<or> falsy b")
  case True
  then have "falsy (Some mid) \<or> falsy b" by (auto simp: falsy_def)
  with True show ?thesis by (simp add: complete_missing_parameters)
next
  case False
  then obtain mname where "b = Some mname" "mname \<noteq> []" "mid \<noteq> []"
    by (auto simp: falsy_def split: option.splits)
  with False assms show ?thesis
    by (simp add: complete_mismatch)
qed

text \<open>C3: the stored mission is \<open>m1\<close>, the call names \<open>m2\<close>.\<close>

theorem complete_with_other_id_witness:
  "users sample_db ''busy'' = Some busy_user \<and>
   map_option missionId (activeMission busy_user) = Some ''m1'' \<and>
   complete sample_db ''busy'' (Some ''m2'') (Some ''Drift'') =
     (sample_db, \<lparr>code = 400,
       body = Message ''The mission to complete does not match the currently active mission in the database.''\<rparr>)"
  using complete_with_other_id[of sample_db "''busy''" busy_user "the (activeMission busy_user)"
      "''m2''" "Some ''Drift''"]
  by (simp add: sample_db_def busy_user_def falsy_def)

text \<open>
  C3 as stated fails: the stored mission is \<open>m1\<close>, the call supplies \<open>m2\<close> and no
  \<open>missionName\<close>, and the answer is "Mission ID and Mission Name are required.".
\<close>

theorem complete_other_id_without_name:
  "users sample_db ''busy'' = Some busy_user \<and>
   map_option missionId (activeMission busy_user) = Some ''m1'' \<and>
   complete sample_db ''busy'' (Some ''m2'') None =
     (sample_db, \<lparr>code = 400, body = Message ''Mission ID and Mission Name are required.''\<rparr>)"
  by (simp add: complete_def falsy_def sample_db_def busy_user_def)

text \<open>
  C9. complete compares only the supplied \<open>missionId\<close> with the stored one. No
  hypothesis relates the supplied \<open>missionName\<close> to the stored name: the appended
  \<open>completed\<close> event and the confirmation carry the supplied name as it came. The
  commit stamps the event with the server's time, and the clock moves on.
\<close>

theorem complete_takes_supplied_name:
  assumes \<open>users db uid = Some u\<close> and \<open>activeMission u = Some am\<close>
    and \<open>missionId am = mid\<close> and \<open>mid \<noteq> []\<close> and \<open>mname \<noteq> []\<close>
    and \<open>unavailable db = None\<close>
  shows \<open>complete db uid (Some mid) (Some mname) =
     (db\<lparr>users := (users db)(uid \<mapsto> u\<lparr>activeMission := None\<rparr>),
         journeyEvents := (journeyEvents db)(uid := journeyEvents db uid @
           [\<lparr>eventMissionId = mid, eventMissionName = mname, status = ''completed'',
             eventDate = Timestamp (serverTime db)\<rparr>]),
         serverTime := Suc (serverTime db)\<rparr>,
      \<lparr>code = 200, body = Message (''Mission "'' @ mname @ ''" completed successfully.'')\<rparr>)\<close>
  using assms by (simp add: complete_success)

text \<open>
  C9 with a supplied name that differs from the stored one: the stored mission is
  "Lunar Survey", the event and the confirmation say "Mars Run".
\<close>

theorem complete_takes_supplied_name_witness:
  \<open>map_option missionName (activeMission busy_user) = Some ''Lunar Survey'' \<and>
   ''Lunar Survey'' \<noteq> ''Mars Run'' \<and>
   journeyEvents (fst (complete sample_db ''busy'' (Some ''m1'') (Some ''Mars Run''))) ''busy'' =
     [lunar_started,
      \<lparr>eventMissionId = ''m1'', eventMissionName = ''Mars Run'', status = ''completed'',
        eventDate = Timestamp 9\<rparr>] \<and>
   snd (complete sample_db ''busy'' (Some ''m1'') (Some ''Mars Run'')) =
     \<lparr>code = 200, body = Message ''Mission "Mars Run" completed successfully.''\<rparr>\<close>
  using complete_takes_supplied_name[of sample_db "''busy''" busy_user
      "the (activeMission busy_user)" "''m1''" "''Mars Run''"]
  by (simp add: sample_db_def busy_user_def)

subsection \<open>What a successful start returns\<close>

lemma start_200:
  assumes "code (snd (start f g db uid req)) = 200"
  obtains mid u m nm seconds where "req = Some mid" "mid \<noteq> []" "unavailable db = None"
    "users db uid = Some u" "missions db mid = Some m" "activeMission u = None"
    "canStart g u m = Inr ()" "name m = Some nm" "missionDuration m = Some seconds"
    "readError db = None"
proof -
  from assms obtain mid where req: "req = Some mid" "mid \<noteq> []"
    by (cases req) (auto simp: start_def split: if_splits)
  from assms req obtain db' where tx:
    "runTransaction db (start_transaction g uid mid) = Inr (db', ())"
    by (auto simp: start_def start_catch_def split: sum.splits if_splits option.splits)
  then have av: "unavailable db = None"
    by (auto simp: runTransaction_def split: option.splits)
  from tx av obtain ws where ws: "start_transaction g uid mid db = Inr (ws, ())"
    and db': "db' = commit db ws"
    by (auto simp: runTransaction_def split: sum.splits)
  from ws obtain u m nm seconds where *: "users db uid = Some u" "missions db mid = Some m"
    "activeMission u = None" "canStart g u m = Inr ()" "name m = Some nm"
    "missionDuration m = Some seconds"
    by (auto simp: start_transaction_def split: option.splits if_splits sum.splits)
  have "readError db' = readError db"
    using ws * db' by (auto simp: start_transaction_def commit_def)
  moreover from assms req tx * have "readError db' = None"
    by (auto simp: start_def doc_stored start_catch_def split: option.splits if_splits)
  ultimately have "readError db = None" by simp
  with req av * that show ?thesis by blast
qed

text \<open>
  C7. When start answers 200, the mission in the response is the one read again from
  the user document after the commit: its \<open>startDate\<close> is the timestamp the server
  assigned, rendered by \<open>toISOString\<close>, and not the \<open>serverTimestamp()\<close> sentinel of the
  object the transaction wrote.
\<close>

theorem start_returns_committed_mission:
  assumes "code (snd (start f g db uid req)) = 200"
  shows "\<exists>u am. users (fst (start f g db uid req)) uid = Some u \<and>
           activeMission u = Some am \<and>
           startDate am = Timestamp (serverTime db) \<and>
           body (snd (start f g db uid req)) =
             MessageActiveMission ''Mission started successfully''
               (Some (am\<lparr>startDate := DateString (f (serverTime db))\<rparr>))"
proof -
  from assms obtain mid u m nm seconds where *: "req = Some mid" "mid \<noteq> []"
    "unavailable db = None" "users db uid = Some u" "missions db mid = Some m"
    "activeMission u = None" "canStart g u m = Inr ()" "name m = Some nm"
    "missionDuration m = Some seconds" "readError db = None"
    by (rule start_200)
  show ?thesis
    unfolding \<open>req = Some mid\<close> start_success[OF *(2-10)] by simp
qed

text \<open>C7 for a sample user with crew 5 and a mission that requires 3.\<close>

theorem start_returns_committed_mission_witness:
  "code (snd (start sample_toISOString sample_toString sample_db ''crew5'' (Some ''m1''))) = 200 \<and>
   body (snd (start sample_toISOString sample_toString sample_db ''crew5'' (Some ''m1''))) =
     MessageActiveMission ''Mission started successfully''
       (Some \<lparr>missionId = ''m1'', missionName = ''Lunar Survey'',
              startDate = DateString ''T+9'', durationSeconds = 3600\<rparr>) \<and>
   map_option activeMission
     (users (fst (start sample_toISOString sample_toString sample_db ''crew5'' (Some ''m1'')))
        ''crew5'') =
     Some (Some \<lparr>missionId = ''m1'', missionName = ''Lunar Survey'',
                 startDate = Timestamp 9, durationSeconds = 3600\<rparr>)"
  using start_returns_committed_mission[of sample_toISOString sample_toString sample_db
      "''crew5''" "Some ''m1''"]
  by (simp add: start_def doc_def runTransaction_def start_transaction_def commit_def
      canStart_def typeof_undefined_def js_less_def nearest_double_exact
      sample_db_def idle_user_def lunar_survey_def sample_toISOString_def digit_def)

subsection \<open>Failures of the transitions\<close>










subsection \<open>The journey log\<close>

lemma orderBy_mset: "mset (orderBy_eventDate_desc docs) = mset docs"
  by (simp add: orderBy_eventDate_desc_def)

lemma orderBy_descending:
  "sorted_wrt (\<lambda>a b. eventTimestamp (snd b) \<le> eventTimestamp (snd a))
     (orderBy_eventDate_desc docs)"
proof -
  have "sorted (map (\<lambda>(docId, data). - int (eventTimestamp data))
          (orderBy_eventDate_desc docs))"
    unfolding orderBy_eventDate_desc_def by (rule sorted_sort_key)
  then show ?thesis
    by (simp add: sorted_wrt_map case_prod_beta)
qed

lemma orderBy_ties:
  "filter (\<lambda>d. eventTimestamp (snd d) = t) (orderBy_eventDate_desc docs) =
   filter (\<lambda>d. eventTimestamp (snd d) = t) docs"
proof -
  have "filter (\<lambda>d. (case d of (docId, data) \<Rightarrow> - int (eventTimestamp data)) = - int t)
          (orderBy_eventDate_desc docs) =
        filter (\<lambda>d. (case d of (docId, data) \<Rightarrow> - int (eventTimestamp data)) = - int t) docs"
    unfolding orderBy_eventDate_desc_def by (rule sort_key_stable)
  then show ?thesis
    by (simp add: case_prod_beta)
qed

text \<open>
  C8. For a user whose profile exists and a readable store, the journey-log read
  returns the documents of the user's sub-collection, each with its id and with its
  date rendered by \<open>toISOString\<close>, in the order of the store's answer to
  \<open>orderBy('eventDate', 'desc')\<close>: every document once, in descending order of
  \<open>eventTimestamp\<close>, and the documents of one and the same time in the order of their
  insertion. The handler keeps the order of the snapshot and sorts nothing itself.
\<close>

theorem journey_log_order:
  assumes "users db uid = Some u" and "readError db = None"
  shows "\<exists>docs.
           journey_log f db uid =
             \<lparr>code = 200,
              body = Events
                (map (\<lambda>(docId, data).
                        (docId, data\<lparr>eventDate := toClient f (eventDate data)\<rparr>)) docs)\<rparr> \<and>
           mset docs = mset (journeyEventDocs db uid) \<and>
           sorted_wrt (\<lambda>a b. eventTimestamp (snd b) \<le> eventTimestamp (snd a)) docs \<and>
           (\<forall>t. filter (\<lambda>d. eventTimestamp (snd d) = t) docs =
                filter (\<lambda>d. eventTimestamp (snd d) = t) (journeyEventDocs db uid))"
proof -
  let ?docs = "orderBy_eventDate_desc (journeyEventDocs db uid)"
  have "journey_log f db uid =
          \<lparr>code = 200,
           body = Events
             (map (\<lambda>(docId, data).
                     (docId, data\<lparr>eventDate := toClient f (eventDate data)\<rparr>)) ?docs)\<rparr>"
    using assms by (simp add: journey_log_def doc_stored Let_def)
  then show ?thesis
    using orderBy_mset orderBy_descending orderBy_ties by blast
qed

text \<open>
  C8 for a log that received an event at time 4 and then one at time 8: the later one
  comes first.
\<close>

theorem journey_log_order_witness:
  "users logged_db ''crew5'' = Some (idle_user (IntegerValue 5)) \<and>
   readError logged_db = None \<and>
   journeyEvents logged_db ''crew5'' = [lunar_started, lunar_canceled] \<and>
   journey_log sample_toISOString logged_db ''crew5'' =
     \<lparr>code = 200,
      body = Events
        [(''event1'', lunar_canceled\<lparr>eventDate := DateString ''T+8''\<rparr>),
         (''event0'', lunar_started\<lparr>eventDate := DateString ''T+4''\<rparr>)]\<rparr>"
proof -
  have user: "users logged_db ''crew5'' = Some (idle_user (IntegerValue 5))"
    and readable: "readError logged_db = None"
    and events: "journeyEvents logged_db ''crew5'' = [lunar_started, lunar_canceled]"
    by (simp_all add: logged_db_def sample_db_def)
  have docs: "journeyEventDocs logged_db ''crew5'' =
      [(''event0'', lunar_started), (''event1'', lunar_canceled)]"
    by (simp add: journeyEventDocs_def logged_db_def sample_db_def upt_rec digit_def)
  have answer: "orderBy_eventDate_desc [(''event0'', lunar_started), (''event1'', lunar_canceled)] =
      [(''event1'', lunar_canceled), (''event0'', lunar_started)]"
    by (simp add: orderBy_eventDate_desc_def eventTimestamp_def lunar_started_def
        lunar_canceled_def)
  have log: "journey_log sample_toISOString logged_db ''crew5'' =
     \<lparr>code = 200,
      body = Events
        [(''event1'', lunar_canceled\<lparr>eventDate := DateString ''T+8''\<rparr>),
         (''event0'', lunar_started\<lparr>eventDate := DateString ''T+4''\<rparr>)]\<rparr>"
    unfolding journey_log_def docs answer
    by (simp add: doc_def logged_db_def sample_db_def lunar_started_def lunar_canceled_def
        sample_toISOString_def digit_def)
  from journey_log_order[OF user readable, of sample_toISOString] log user readable events
  show ?thesis by simp
qed

end
